theory Spec2Isabelle
  imports Main
begin

section \<open>Webhook payloads and Python values\<close>

text \<open>
  The handler of \<^verbatim>\<open>src/main.py\<close> receives \<^verbatim>\<open>data: Dict[str, Any]\<close>, a decoded JSON object.
  A JSON value is modelled by the datatype below; a dict is an association list whose
  first binding of a key is the dict's entry. JSON numbers are modelled by integers.
\<close>

datatype json =
    JNull
  | JBool bool
  | JInt int
  | JStr string
  | JList "json list"
  | JDict "(string \<times> json) list"

text \<open>
  The exceptions the modelled code raises. \<open>HTTPException status prefix e\<close> is FastAPI's
  exception with \<^verbatim>\<open>status_code=status\<close> and \<^verbatim>\<open>detail=f"{prefix}{str(e)}"\<close>.
  \<open>CollaboratorError\<close> stands for whatever an external collaborator (transcription
  service, agent) raises.
\<close>

datatype exn =
    KeyError string
  | IndexError
  | TypeError
  | ValidationError
  | UnboundLocalError
  | CollaboratorError string
  | HTTPException nat string exn

text \<open>\<^verbatim>\<open>d.get(k)\<close>: \<^verbatim>\<open>None\<close> for a missing key.\<close>

definition dict_get :: "(string \<times> json) list \<Rightarrow> string \<Rightarrow> json" where
  "dict_get d k = (case map_of d k of None \<Rightarrow> JNull | Some v \<Rightarrow> v)"

text \<open>\<^verbatim>\<open>d.get(k, default)\<close>.\<close>

definition dict_get_default :: "(string \<times> json) list \<Rightarrow> string \<Rightarrow> json \<Rightarrow> json" where
  "dict_get_default d k dflt = (case map_of d k of None \<Rightarrow> dflt | Some v \<Rightarrow> v)"

text \<open>
  \<^verbatim>\<open>v[k]\<close> with a string key: \<^verbatim>\<open>KeyError\<close> on a dict without the key,
  \<^verbatim>\<open>TypeError\<close> on every value that is not a dict.
\<close>

definition subscript :: "json \<Rightarrow> string \<Rightarrow> exn + json" where
  "subscript v k =
     (case v of
        JDict d \<Rightarrow> (case map_of d k of None \<Rightarrow> Inl (KeyError k) | Some x \<Rightarrow> Inr x)
      | _ \<Rightarrow> Inl TypeError)"

text \<open>
  Python's \<^verbatim>\<open>v == True\<close>: \<^verbatim>\<open>bool\<close> is a subclass of \<^verbatim>\<open>int\<close>, so the number 1
  compares equal to \<^verbatim>\<open>True\<close> as well.
\<close>

definition eq_True :: "json \<Rightarrow> bool" where
  "eq_True v = (case v of JBool b \<Rightarrow> b | JInt i \<Rightarrow> i = 1 | _ \<Rightarrow> False)"

text \<open>Python's \<^verbatim>\<open>v == s\<close> for a string literal \<open>s\<close>: only a string equals a string.\<close>

definition eq_str :: "json \<Rightarrow> string \<Rightarrow> bool" where
  "eq_str v s = (case v of JStr t \<Rightarrow> t = s | _ \<Rightarrow> False)"

text \<open>Sequencing of computations that may raise: the first exception ends the sequence.\<close>

definition and_then :: "exn + 'a \<Rightarrow> ('a \<Rightarrow> exn + 'b) \<Rightarrow> exn + 'b" where
  "and_then r f = (case r of Inl e \<Rightarrow> Inl e | Inr x \<Rightarrow> f x)"

text \<open>
  \<^verbatim>\<open>try: ... except Exception as e: raise h(e)\<close> around a computation that threads a state:
  every exception (an \<open>HTTPException\<close> is one) is replaced by \<open>h e\<close>.
\<close>

definition except_Exception :: "(exn \<Rightarrow> exn) \<Rightarrow> (exn + 'a) \<times> 's \<Rightarrow> (exn + 'a) \<times> 's" where
  "except_Exception h r = (case r of (Inl e, s) \<Rightarrow> (Inl (h e), s) | (Inr x, s) \<Rightarrow> (Inr x, s))"

section \<open>The pydantic models\<close>

record Sender =
  id' :: string
  isUser :: bool

record WebhookMessage =
  event :: string
  session :: string
  body :: string
  type' :: string
  isNewMsg :: bool
  sender :: Sender
  isGroupMsg :: bool

section \<open>Collaborators, configuration and the process state\<close>

text \<open>
  What the code takes from outside the repository:
  \<^item> \<open>b64decode\<close>: \<^verbatim>\<open>base64.b64decode\<close> on a string, \<open>None\<close> when it raises;
  \<^item> \<open>GROQ_CLIENT\<close>: the transcription collaborator
    \<^verbatim>\<open>GROQ_CLIENT.audio.transcriptions.create(...).text\<close> on the audio bytes
    (the name is used by \<^verbatim>\<open>main.py\<close> and defined nowhere in it);
  \<^item> \<open>bool_of_str\<close>: the strings pydantic accepts for a \<^verbatim>\<open>bool\<close> field;
  \<^item> \<open>WAIT_TIME\<close>: \<^verbatim>\<open>int(WAIT_TIME)\<close>, the window in seconds, taken to be a valid
    number (default 1).
\<close>

record env =
  b64decode :: "string \<Rightarrow> string option"
  GROQ_CLIENT :: "string \<Rightarrow> exn + string"
  bool_of_str :: "string \<Rightarrow> bool option"
  WAIT_TIME :: nat

text \<open>
  A task created by \<^verbatim>\<open>asyncio.create_task(process_aggregated_messages(...))\<close>: its four
  arguments, the instant its sleep ends and where it stands. The coroutine suspends
  twice, in \<^verbatim>\<open>asyncio.sleep\<close> and in \<^verbatim>\<open>await main(...)\<close>.
\<close>

record processed_data =
  pd_session :: string
  pd_message :: string
  pd_sender_id :: string
  pd_is_user :: bool
  pd_is_group :: bool

datatype outcome =
    ReturnedNone
  | Success processed_data string
  | Raised exn

datatype phase =
    Sleeping
  | AwaitingAgent string string
  | Finished outcome

record task =
  sender_id :: string
  task_session :: string
  is_user :: bool
  is_group :: bool
  deadline :: nat
  phase :: phase

text \<open>
  The module's globals \<open>message_buffers\<close> (a \<^verbatim>\<open>defaultdict(list)\<close>) and
  \<open>processing_tasks\<close> (a dict from sender id to task; a task is named by its position in
  \<open>tasks\<close>, the list of all tasks created so far), the temporary files that exist, and
  the calls made to the two collaborators, in order.
\<close>

record state =
  message_buffers :: "string \<rightharpoonup> string list"
  processing_tasks :: "string \<rightharpoonup> nat"
  tasks :: "task list"
  tmp_files :: "nat list"
  transcription_calls :: "string list"
  agent_calls :: "(string \<times> string) list"

definition initial_state :: state where
  "initial_state =
     \<lparr>message_buffers = Map.empty, processing_tasks = Map.empty, tasks = [],
      tmp_files = [], transcription_calls = [], agent_calls = []\<rparr>"

text \<open>\<^verbatim>\<open>message_buffers[k]\<close> as a value: a \<^verbatim>\<open>defaultdict(list)\<close> reads a missing key as \<open>[]\<close>.\<close>

definition buffer_of :: "state \<Rightarrow> string \<Rightarrow> string list" where
  "buffer_of st k = (case message_buffers st k of None \<Rightarrow> [] | Some ms \<Rightarrow> ms)"

section \<open>\<^verbatim>\<open>transcribe_base64_audio\<close>\<close>

text \<open>
  \<^verbatim>\<open>tempfile.NamedTemporaryFile(delete=False)\<close> creates a file whose name no existing
  file has.
\<close>

definition fresh_name :: "nat list \<Rightarrow> nat" where
  "fresh_name fs = Suc (fold max fs 0)"

text \<open>
  Lines 47 to 67. When \<^verbatim>\<open>base64.b64decode\<close> raises (also on an argument that is not a
  string), no file has been created and \<^verbatim>\<open>tmp_file_path\<close> is unbound, so the
  \<^verbatim>\<open>finally\<close> block raises \<^verbatim>\<open>UnboundLocalError\<close> in place of the decoding error.
  Otherwise the file is created, the collaborator is called on its contents, and the
  \<^verbatim>\<open>finally\<close> block unlinks the file if it exists, whatever the collaborator did.
\<close>

definition transcribe_base64_audio :: "env \<Rightarrow> json \<Rightarrow> state \<Rightarrow> (exn + string) \<times> state" where
  "transcribe_base64_audio E base64_audio st =
     (case (case base64_audio of JStr s \<Rightarrow> b64decode E s | _ \<Rightarrow> None) of
        None \<Rightarrow> (Inl UnboundLocalError, st)
      | Some audio_data \<Rightarrow>
          (let tmp_file_path = fresh_name (tmp_files st);
               st1 = st\<lparr>tmp_files := tmp_file_path # tmp_files st\<rparr>;
               st2 = st1\<lparr>transcription_calls := transcription_calls st1 @ [audio_data]\<rparr>;
               transcription = GROQ_CLIENT E audio_data;
               st3 = (if tmp_file_path \<in> set (tmp_files st2)
                      then st2\<lparr>tmp_files := removeAll tmp_file_path (tmp_files st2)\<rparr>
                      else st2)
           in (transcription, st3)))"

section \<open>\<^verbatim>\<open>webhook_handler\<close>\<close>

text \<open>The condition of lines 145 to 150.\<close>

definition matches_criteria :: "(string \<times> json) list \<Rightarrow> bool" where
  "matches_criteria data =
     (eq_str (dict_get data ''event'') ''onmessage''
      \<and> eq_True (dict_get data ''isNewMsg'')
      \<and> (eq_str (dict_get data ''type'') ''chat''
         \<or> eq_str (dict_get data ''type'') ''list_response''
         \<or> eq_str (dict_get data ''type'') ''ptt''))"

text \<open>
  Validation of a \<^verbatim>\<open>str\<close> and of a \<^verbatim>\<open>bool\<close> field by pydantic: a \<^verbatim>\<open>str\<close> field takes a
  string; a \<^verbatim>\<open>bool\<close> field takes a boolean, the numbers 0 and 1, and the strings
  \<open>bool_of_str\<close> accepts.
\<close>

definition validate_str :: "json \<Rightarrow> exn + string" where
  "validate_str v = (case v of JStr s \<Rightarrow> Inr s | _ \<Rightarrow> Inl ValidationError)"

definition validate_bool :: "env \<Rightarrow> json \<Rightarrow> exn + bool" where
  "validate_bool E v =
     (case v of
        JBool b \<Rightarrow> Inr b
      | JInt i \<Rightarrow> (if i = 0 then Inr False else if i = 1 then Inr True else Inl ValidationError)
      | JStr s \<Rightarrow> (case bool_of_str E s of None \<Rightarrow> Inl ValidationError | Some b \<Rightarrow> Inr b)
      | _ \<Rightarrow> Inl ValidationError)"

text \<open>
  Lines 172 to 182: the keyword arguments are evaluated left to right (each
  \<^verbatim>\<open>data[...]\<close> may raise), \<^verbatim>\<open>Sender(...)\<close> is validated when its arguments are there,
  \<^verbatim>\<open>WebhookMessage(...)\<close> last.
\<close>

definition parse_message :: "env \<Rightarrow> (string \<times> json) list \<Rightarrow> json \<Rightarrow> exn + WebhookMessage" where
  "parse_message E data message_text =
     and_then (subscript (JDict data) ''event'') (\<lambda>ev.
     and_then (subscript (JDict data) ''session'') (\<lambda>se.
     and_then (subscript (JDict data) ''type'') (\<lambda>ty.
     and_then (subscript (JDict data) ''isNewMsg'') (\<lambda>nm.
     and_then (subscript (JDict data) ''sender'') (\<lambda>sd.
     and_then (subscript sd ''id'') (\<lambda>sid.
     and_then (subscript sd ''isUser'') (\<lambda>su.
     and_then (validate_str sid) (\<lambda>sid'.
     and_then (validate_bool E su) (\<lambda>su'.
     and_then (subscript (JDict data) ''isGroupMsg'') (\<lambda>gm.
     and_then (validate_str ev) (\<lambda>ev'.
     and_then (validate_str se) (\<lambda>se'.
     and_then (validate_str message_text) (\<lambda>body'.
     and_then (validate_str ty) (\<lambda>ty'.
     and_then (validate_bool E nm) (\<lambda>nm'.
     and_then (validate_bool E gm) (\<lambda>gm'.
       Inr \<lparr>event = ev', session = se', body = body', type' = ty', isNewMsg = nm',
            sender = \<lparr>id' = sid', isUser = su'\<rparr>, isGroupMsg = gm'\<rparr>))))))))))))))))"

text \<open>
  Lines 152 to 182: the message text is the payload's body or, for a voice note, its
  transcription; a failed transcription is raised as an \<open>HTTPException\<close> with status 422
  (line 167). Then the message is parsed.
\<close>

definition read_message ::
  "env \<Rightarrow> (string \<times> json) list \<Rightarrow> state \<Rightarrow> (exn + WebhookMessage) \<times> state" where
  "read_message E data st =
     (let message_text = dict_get_default data ''body'' (JStr '''')
      in if eq_str (dict_get data ''type'') ''ptt''
         then (case except_Exception (HTTPException 422 ''Error processing audio: '')
                      (transcribe_base64_audio E message_text st) of
                 (Inl e, st1) \<Rightarrow> (Inl e, st1)
               | (Inr transcribed, st1) \<Rightarrow> (parse_message E data (JStr transcribed), st1))
         else (parse_message E data message_text, st))"

text \<open>
  Lines 184 to 210: append the body to the sender's buffer; when the sender has no entry
  in \<open>processing_tasks\<close>, create the task (its sleep ends \<open>WAIT_TIME\<close> after \<open>now\<close>, the
  event loop's clock) and record it. The response is the returned dict's status and
  message.
\<close>

definition aggregate :: "env \<Rightarrow> nat \<Rightarrow> WebhookMessage \<Rightarrow> state \<Rightarrow> (string \<times> string) \<times> state" where
  "aggregate E now message st =
     (let sid = id' (sender message);
          st1 = st\<lparr>message_buffers := (message_buffers st)(sid \<mapsto> buffer_of st sid @ [body message])\<rparr>
      in if processing_tasks st1 sid = None
         then (let new_task = \<lparr>sender_id = sid, task_session = session message,
                                is_user = isUser (sender message), is_group = isGroupMsg message,
                                deadline = now + WAIT_TIME E, phase = Sleeping\<rparr>;
                   st2 = st1\<lparr>tasks := tasks st1 @ [new_task]\<rparr>;
                   st3 = st2\<lparr>processing_tasks := (processing_tasks st2)(sid \<mapsto> length (tasks st1))\<rparr>
               in ((''aggregating'', ''Message received and being aggregated''), st3))
         else ((''aggregating'', ''Message added to existing aggregation window''), st1))"

text \<open>
  Lines 136 to 229. The inner \<^verbatim>\<open>except Exception\<close> (line 212) turns every exception of
  the block, the 422 of line 167 included, into an \<open>HTTPException\<close> with status 422; that
  exception is raised inside the outer \<^verbatim>\<open>try\<close>, whose \<^verbatim>\<open>except Exception\<close> (line 225)
  turns it into an \<open>HTTPException\<close> with status 500.
\<close>

definition webhook_handler ::
  "env \<Rightarrow> nat \<Rightarrow> (string \<times> json) list \<Rightarrow> state \<Rightarrow> (exn + string \<times> string) \<times> state" where
  "webhook_handler E now data st =
     except_Exception (HTTPException 500 ''Error processing webhook: '')
       (if matches_criteria data
        then except_Exception (HTTPException 422 ''Error parsing message: '')
               (case read_message E data st of
                  (Inl e, st1) \<Rightarrow> (Inl e, st1)
                | (Inr message, st1) \<Rightarrow>
                    (case aggregate E now message st1 of (resp, st2) \<Rightarrow> (Inr resp, st2)))
        else (Inr (''received'', ''Message received but not processed (not matching criteria)''), st))"

text \<open>
  The status code of the HTTP response: 200 for a returned dict, the exception's
  \<^verbatim>\<open>status_code\<close> for an \<open>HTTPException\<close>, 500 for any other exception.
\<close>

definition http_status :: "exn + string \<times> string \<Rightarrow> nat" where
  "http_status r =
     (case r of Inr _ \<Rightarrow> 200 | Inl (HTTPException code _ _) \<Rightarrow> code | Inl _ \<Rightarrow> 500)"

section \<open>\<^verbatim>\<open>process_aggregated_messages\<close>\<close>

text \<open>\<^verbatim>\<open>" ".join(messages)\<close>.\<close>

fun join :: "string list \<Rightarrow> string" where
  "join [] = []"
| "join [m] = m"
| "join (m # n # ms) = m @ '' '' @ join (n # ms)"

text \<open>\<^verbatim>\<open>sender_id.split("@")[0]\<close>: the text before the first \<^verbatim>\<open>@\<close>, all of it if there is none.\<close>

definition phone_number :: "string \<Rightarrow> string" where
  "phone_number sid = takeWhile (\<lambda>c. c \<noteq> CHR ''@'') sid"

text \<open>
  \<^verbatim>\<open>message_buffers[sender_id]\<close> as a statement: reading a \<^verbatim>\<open>defaultdict\<close> at a missing key
  stores the default there.
\<close>

definition touch_buffer :: "string \<Rightarrow> state \<Rightarrow> state" where
  "touch_buffer sid st =
     (case message_buffers st sid of
        None \<Rightarrow> st\<lparr>message_buffers := (message_buffers st)(sid \<mapsto> [])\<rparr>
      | Some _ \<Rightarrow> st)"

text \<open>
  \<^verbatim>\<open>message_buffers[sender_id] = []\<close> followed by
  \<^verbatim>\<open>if sender_id in processing_tasks: del processing_tasks[sender_id]\<close>
  (lines 87 to 91, and again lines 118 to 120).
\<close>

definition clear_sender :: "string \<Rightarrow> state \<Rightarrow> state" where
  "clear_sender sid st =
     st\<lparr>message_buffers := (message_buffers st)(sid \<mapsto> []),
        processing_tasks := (processing_tasks st)(sid := None)\<rparr>"

definition set_phase :: "nat \<Rightarrow> phase \<Rightarrow> state \<Rightarrow> state" where
  "set_phase t p st = st\<lparr>tasks := (tasks st)[t := (tasks st ! t)\<lparr>phase := p\<rparr>]\<rparr>"

text \<open>
  Lines 78 to 99, the stretch of task \<open>t\<close> between the end of its sleep and its
  \<^verbatim>\<open>await main(phone_number, combined_message)\<close>: no other task runs in between. With
  an empty buffer the coroutine returns at line 81. Otherwise it joins the buffer,
  clears it, deletes the sender's entry of \<open>processing_tasks\<close> and calls the agent.
  A \<open>t\<close> that is no sleeping task leaves the state as it is.
\<close>

definition process_aggregated_messages_wake :: "nat \<Rightarrow> state \<Rightarrow> state" where
  "process_aggregated_messages_wake t st =
     (if t < length (tasks st) \<and> phase (tasks st ! t) = Sleeping
      then (let sid = sender_id (tasks st ! t);
                st1 = touch_buffer sid st;
                messages = buffer_of st1 sid
            in if messages = []
               then set_phase t (Finished ReturnedNone) st1
               else (let combined_message = join messages;
                         st2 = clear_sender sid st1;
                         phone = phone_number sid;
                         st3 = st2\<lparr>agent_calls := agent_calls st2 @ [(phone, combined_message)]\<rparr>
                     in set_phase t (AwaitingAgent phone combined_message) st3))
      else st)"

text \<open>
  Lines 99 to 121, the stretch of task \<open>t\<close> after the agent has answered (\<open>Inr\<close>) or
  raised (\<open>Inl\<close>). On an answer the coroutine returns its dict. On an exception the
  handler of line 115 clears the sender's buffer, deletes the sender's entry of
  \<open>processing_tasks\<close> and raises the exception again: it ends the task, which nothing
  awaits.
\<close>

definition process_aggregated_messages_resume :: "nat \<Rightarrow> exn + string \<Rightarrow> state \<Rightarrow> state" where
  "process_aggregated_messages_resume t agent_response st =
     (if t < length (tasks st)
      then (case phase (tasks st ! t) of
              AwaitingAgent phone combined_message \<Rightarrow>
                (let tk = tasks st ! t in
                 case agent_response of
                   Inr reply \<Rightarrow>
                     set_phase t
                       (Finished (Success
                          \<lparr>pd_session = task_session tk, pd_message = combined_message,
                           pd_sender_id = sender_id tk, pd_is_user = is_user tk,
                           pd_is_group = is_group tk\<rparr> reply)) st
                 | Inl e \<Rightarrow> set_phase t (Finished (Raised e)) (clear_sender (sender_id tk) st))
            | _ \<Rightarrow> st)
      else st)"

section \<open>Runs of the handler\<close>

text \<open>
  What lines 152 to 182 make of a payload: the parsed message or the exception. The
  state plays no part in it (lemma \<open>read_message_fst\<close>): the transcription only records
  its call and removes its own file.
\<close>

definition message_of :: "env \<Rightarrow> (string \<times> json) list \<Rightarrow> exn + WebhookMessage" where
  "message_of E data = fst (read_message E data initial_state)"

text \<open>A payload that passes the criteria and parses into a message of sender \<open>s\<close>.\<close>

definition accepted_from :: "env \<Rightarrow> string \<Rightarrow> (string \<times> json) list \<Rightarrow> bool" where
  "accepted_from E s data =
     (matches_criteria data \<and>
      (case message_of E data of Inl _ \<Rightarrow> False | Inr m \<Rightarrow> id' (sender m) = s))"

text \<open>The text of an accepted payload: the body the handler appends to the buffer.\<close>

definition text_of :: "env \<Rightarrow> (string \<times> json) list \<Rightarrow> string" where
  "text_of E data = (case message_of E data of Inl _ \<Rightarrow> [] | Inr m \<Rightarrow> body m)"

text \<open>
  What the event loop runs, one stretch of code at a time: a request arriving at an
  instant of the loop's clock, the end of a task's sleep (not before the task's
  deadline), and the agent answering or raising in a task's \<^verbatim>\<open>await main(...)\<close>.
\<close>

datatype loop_event =
    Request nat "(string \<times> json) list"
  | SleepEnds nat nat
  | AgentAnswers nat "exn + string"

fun step :: "env \<Rightarrow> loop_event \<Rightarrow> state \<Rightarrow> state" where
  "step E (Request now data) st = snd (webhook_handler E now data st)"
| "step E (SleepEnds now t) st =
     (if t < length (tasks st) \<and> deadline (tasks st ! t) \<le> now
      then process_aggregated_messages_wake t st else st)"
| "step E (AgentAnswers t r) st = process_aggregated_messages_resume t r st"

fun run :: "env \<Rightarrow> loop_event list \<Rightarrow> state \<Rightarrow> state" where
  "run E [] st = st"
| "run E (ev # evs) st = run E evs (step E ev st)"

text \<open>
  The states the process can be in: the event loop runs one stretch of code at a time,
  a request handler (which never suspends) or a stretch of a task between two of its
  suspension points.
\<close>

inductive reachable :: "env \<Rightarrow> state \<Rightarrow> bool" for E :: env where
  start: "reachable E initial_state"
| request: "reachable E st \<Longrightarrow> reachable E (snd (webhook_handler E now data st))"
| wake: "reachable E st \<Longrightarrow> reachable E (process_aggregated_messages_wake t st)"
| resume: "reachable E st \<Longrightarrow> reachable E (process_aggregated_messages_resume t r st)"

text \<open>
  A sender has an entry in \<open>processing_tasks\<close> exactly when its buffer is not empty.
\<close>

definition windows_have_messages :: "state \<Rightarrow> bool" where
  "windows_have_messages st = (\<forall>s. (processing_tasks st s \<noteq> None) = (buffer_of st s \<noteq> []))"

section \<open>\<^verbatim>\<open>process_chunks\<close>\<close>








text \<open>
  Concrete values for the examples. The decoder is given on the two bodies the examples
  use: \<^verbatim>\<open>T2dnUw==\<close> decodes to the four bytes \<^verbatim>\<open>OggS\<close>, and \<^verbatim>\<open>abc\<close> is rejected
  (incorrect padding), as is every other string here.
\<close>

definition example_env :: env where
  "example_env =
     \<lparr>b64decode = (\<lambda>s. if s = ''T2dnUw=='' then Some ''OggS'' else None),
      GROQ_CLIENT = (\<lambda>a. if a = ''OggS'' then Inr ''ola'' else Inl (CollaboratorError ''no speech'')),
      bool_of_str = (\<lambda>s. None),
      WAIT_TIME = 1\<rparr>"

definition payload :: "string \<Rightarrow> string \<Rightarrow> string \<Rightarrow> (string \<times> json) list" where
  "payload ty sid text =
     [(''event'', JStr ''onmessage''), (''session'', JStr ''s1''), (''body'', JStr text),
      (''type'', JStr ty), (''isNewMsg'', JBool True),
      (''sender'', JDict [(''id'', JStr sid), (''isUser'', JBool True)]),
      (''isGroupMsg'', JBool False)]"

text \<open>
  One sender, a window of ten seconds, and an agent that raises on the first dispatch:
  \<^verbatim>\<open>m1\<close> arrives at 0 and is dispatched at 10; \<^verbatim>\<open>m2\<close> arrives at 12, during the agent call,
  which then raises; \<^verbatim>\<open>m3\<close> arrives at 18, the sleep started by \<^verbatim>\<open>m2\<close> ends at 22;
  \<^verbatim>\<open>m4\<close> arrives at 25, the sleep started by \<^verbatim>\<open>m3\<close> ends at 28.
\<close>

definition race_env :: env where
  "race_env = example_env\<lparr>WAIT_TIME := 10\<rparr>"

definition race_trace :: "loop_event list" where
  "race_trace =
     [Request 0 (payload ''chat'' ''5511999@c.us'' ''m1''),
      SleepEnds 10 0,
      Request 12 (payload ''chat'' ''5511999@c.us'' ''m2''),
      AgentAnswers 0 (Inl (CollaboratorError ''agent down'')),
      Request 18 (payload ''chat'' ''5511999@c.us'' ''m3''),
      SleepEnds 22 1,
      Request 25 (payload ''chat'' ''5511999@c.us'' ''m4''),
      SleepEnds 28 2]"

section \<open>Properties of the request handler\<close>

lemma fresh_name_notin: "fresh_name fs \<notin> set fs"
proof
  assume "fresh_name fs \<in> set fs"
  then have "fresh_name fs \<le> Max (set (0 # fs))" by simp
  also have "\<dots> = fold max fs 0" by (rule Max.set_eq_fold)
  finally show False by (simp add: fresh_name_def)
qed

lemma transcribe_state:
  "snd (transcribe_base64_audio E v st) =
     (case (case v of JStr s \<Rightarrow> b64decode E s | _ \<Rightarrow> None) of
        None \<Rightarrow> st
      | Some a \<Rightarrow> st\<lparr>transcription_calls := transcription_calls st @ [a]\<rparr>)"
  using fresh_name_notin [of "tmp_files st"]
  by (simp add: transcribe_base64_audio_def Let_def split: option.splits json.splits)

lemma transcribe_fst:
  "fst (transcribe_base64_audio E v st) = fst (transcribe_base64_audio E v st')"
  by (simp add: transcribe_base64_audio_def Let_def split: option.splits json.splits)

lemma read_message_fst: "fst (read_message E data st) = message_of E data"
  unfolding message_of_def read_message_def Let_def except_Exception_def
  using transcribe_fst [of E "dict_get_default data ''body'' (JStr '''')" st initial_state]
  by (auto split: prod.splits sum.splits)

lemma read_message_state:
  "snd (read_message E data st) = st \<or>
   (\<exists>a. snd (read_message E data st) = st\<lparr>transcription_calls := transcription_calls st @ [a]\<rparr>)"
  unfolding read_message_def Let_def except_Exception_def
  using transcribe_state [of E "dict_get_default data ''body'' (JStr '''')" st]
  by (auto split: prod.splits sum.splits option.splits json.splits)

lemma read_message_frame:
  "message_buffers (snd (read_message E data st)) = message_buffers st"
  "processing_tasks (snd (read_message E data st)) = processing_tasks st"
  "tasks (snd (read_message E data st)) = tasks st"
  "agent_calls (snd (read_message E data st)) = agent_calls st"
  "tmp_files (snd (read_message E data st)) = tmp_files st"
  using read_message_state [of E data st] by auto

lemma buffer_of_read_message: "buffer_of (snd (read_message E data st)) k = buffer_of st k"
  by (simp add: buffer_of_def read_message_frame)

lemma webhook_handler_skipped:
  "\<not> matches_criteria data \<Longrightarrow>
   webhook_handler E now data st =
     (Inr (''received'', ''Message received but not processed (not matching criteria)''), st)"
  by (simp add: webhook_handler_def except_Exception_def)

lemma webhook_handler_rejected:
  assumes "matches_criteria data" and "message_of E data = Inl e"
  shows "webhook_handler E now data st =
     (Inl (HTTPException 500 ''Error processing webhook: ''
            (HTTPException 422 ''Error parsing message: '' e)), snd (read_message E data st))"
proof -
  have "fst (read_message E data st) = Inl e" using assms(2) by (simp add: read_message_fst)
  then have "read_message E data st = (Inl e, snd (read_message E data st))"
    by (metis prod.collapse)
  then obtain st1 where rm: "read_message E data st = (Inl e, st1)" by blast
  show ?thesis using assms(1) rm
    by (simp add: webhook_handler_def except_Exception_def)
qed

lemma webhook_handler_accepted:
  assumes "matches_criteria data" and "message_of E data = Inr m"
  shows "webhook_handler E now data st =
     (Inr (fst (aggregate E now m (snd (read_message E data st)))),
      snd (aggregate E now m (snd (read_message E data st))))"
proof -
  have "fst (read_message E data st) = Inr m" using assms(2) by (simp add: read_message_fst)
  then have "read_message E data st = (Inr m, snd (read_message E data st))"
    by (metis prod.collapse)
  then obtain st1 where rm: "read_message E data st = (Inr m, st1)" by blast
  obtain resp st2 where ag: "aggregate E now m st1 = (resp, st2)"
    by (cases "aggregate E now m st1")
  show ?thesis using assms(1) rm ag
    by (simp add: webhook_handler_def except_Exception_def)
qed

text \<open>
  Claim C6. A payload whose event is not \<^verbatim>\<open>"onmessage"\<close>, or whose \<^verbatim>\<open>isNewMsg\<close> fails
  the handler's test \<^verbatim>\<open>== True\<close>, or whose type is none of \<^verbatim>\<open>chat\<close>, \<^verbatim>\<open>list_response\<close>
  and \<^verbatim>\<open>ptt\<close>, is answered with status \<^verbatim>\<open>"received"\<close> (not processed), and the whole
  state is left as it was: nothing is appended to a buffer and no task is created.
\<close>

theorem filtered_payload_is_received_and_never_buffered:
  assumes "dict_get data ''event'' \<noteq> JStr ''onmessage''
           \<or> \<not> eq_True (dict_get data ''isNewMsg'')
           \<or> dict_get data ''type'' \<notin> {JStr ''chat'', JStr ''list_response'', JStr ''ptt''}"
  shows "webhook_handler E now data st =
           (Inr (''received'', ''Message received but not processed (not matching criteria)''), st)"
proof -
  have "\<not> matches_criteria data"
    using assms by (auto simp: matches_criteria_def eq_str_def split: json.splits)
  then show ?thesis by (rule webhook_handler_skipped)
qed

theorem filtered_payload_witness:
  "dict_get (payload ''image'' ''5511999@c.us'' ''x'') ''type''
     \<notin> {JStr ''chat'', JStr ''list_response'', JStr ''ptt''}
   \<and> webhook_handler example_env 0 (payload ''image'' ''5511999@c.us'' ''x'') initial_state =
       (Inr (''received'', ''Message received but not processed (not matching criteria)''),
        initial_state)"
proof -
  have h: "dict_get (payload ''image'' ''5511999@c.us'' ''x'') ''type''
             \<notin> {JStr ''chat'', JStr ''list_response'', JStr ''ptt''}"
    by (simp add: dict_get_def payload_def)
  show ?thesis
    using h filtered_payload_is_received_and_never_buffered
      [of "payload ''image'' ''5511999@c.us'' ''x''" example_env 0 initial_state]
    by blast
qed

text \<open>
  Claim C7. On every exit path of \<open>transcribe_base64_audio\<close> (a transcription, an
  exception of the transcription collaborator, a body that does not decode) the
  temporary files that exist afterwards are those that existed before: the file the
  function created is gone. File operations themselves are taken to succeed.
\<close>

theorem temporary_audio_file_released_on_every_exit:
  "tmp_files (snd (transcribe_base64_audio E base64_audio st)) = tmp_files st"
  by (simp add: transcribe_state split: option.splits json.splits)

section \<open>Rejected requests\<close>

lemma webhook_handler_status: "http_status (fst (webhook_handler E now data st)) \<noteq> 422"
  by (simp add: webhook_handler_def except_Exception_def http_status_def
      split: prod.splits sum.splits)

text \<open>
  Claim C5. A payload that fails parsing, or whose audio fails to decode or transcribe,
  should be answered with status 422. The code raises that 422 inside the outer
  \<^verbatim>\<open>try\<close>, whose \<^verbatim>\<open>except Exception\<close> replaces it: a chat payload without
  \<^verbatim>\<open>session\<close> and a voice note whose body does not decode are both answered with status
  500, the 422 only quoted in the detail. Nothing is buffered (the state is unchanged).
\<close>

theorem parse_and_audio_failures_answer_500:
  "webhook_handler example_env 0
     [(''event'', JStr ''onmessage''), (''isNewMsg'', JBool True), (''type'', JStr ''chat''),
      (''body'', JStr ''Oi'')] initial_state =
     (Inl (HTTPException 500 ''Error processing webhook: ''
            (HTTPException 422 ''Error parsing message: '' (KeyError ''session''))),
      initial_state)
   \<and> webhook_handler example_env 0 (payload ''ptt'' ''5511999@c.us'' ''abc'') initial_state =
     (Inl (HTTPException 500 ''Error processing webhook: ''
            (HTTPException 422 ''Error parsing message: ''
              (HTTPException 422 ''Error processing audio: '' UnboundLocalError))),
      initial_state)
   \<and> http_status (Inl (HTTPException 500 ''Error processing webhook: ''
            (HTTPException 422 ''Error parsing message: '' (KeyError ''session'')))) = 500"
  by (simp add: webhook_handler_def except_Exception_def http_status_def matches_criteria_def
      eq_str_def eq_True_def dict_get_def dict_get_default_def read_message_def parse_message_def
      and_then_def subscript_def transcribe_base64_audio_def example_env_def payload_def)

text \<open>
  Claim C9. For a voice note (type \<^verbatim>\<open>ptt\<close>) that passes the criteria and whose body
  decodes, the transcription collaborator is called whatever the rest of the payload
  holds; when the required fields then fail to parse, the request is rejected and the
  state differs from the one before only by the record of that call: buffers, tasks and
  \<open>processing_tasks\<close> are untouched.
\<close>

theorem voice_note_transcribed_before_validation:
  assumes "matches_criteria data"
      and "dict_get data ''type'' = JStr ''ptt''"
      and "dict_get_default data ''body'' (JStr '''') = JStr b"
      and "b64decode E b = Some audio"
  shows "transcription_calls (snd (webhook_handler E now data st)) = transcription_calls st @ [audio]
         \<and> (\<forall>tx e. GROQ_CLIENT E audio = Inr tx \<and> parse_message E data (JStr tx) = Inl e \<longrightarrow>
              webhook_handler E now data st =
                (Inl (HTTPException 500 ''Error processing webhook: ''
                       (HTTPException 422 ''Error parsing message: '' e)),
                 st\<lparr>transcription_calls := transcription_calls st @ [audio]\<rparr>))"
proof -
  let ?st1 = "st\<lparr>transcription_calls := transcription_calls st @ [audio]\<rparr>"
  have tr: "transcribe_base64_audio E (JStr b) st = (GROQ_CLIENT E audio, ?st1)"
    using assms(4) fresh_name_notin [of "tmp_files st"]
    by (simp add: transcribe_base64_audio_def Let_def)
  have rm: "read_message E data st =
      (case GROQ_CLIENT E audio of
         Inl e \<Rightarrow> (Inl (HTTPException 422 ''Error processing audio: '' e), ?st1)
       | Inr text \<Rightarrow> (parse_message E data (JStr text), ?st1))"
    using assms(2,3) tr
    by (simp add: read_message_def Let_def eq_str_def except_Exception_def split: sum.splits)
  have calls: "transcription_calls (snd (aggregate E now m ?st1)) = transcription_calls st @ [audio]" for m
    by (simp add: aggregate_def Let_def)
  have st1: "snd (read_message E data st) = ?st1"
    using rm by (simp split: sum.splits)
  have one: "transcription_calls (snd (webhook_handler E now data st)) = transcription_calls st @ [audio]"
  proof (cases "message_of E data")
    case (Inl e)
    show ?thesis
      using webhook_handler_rejected [OF assms(1) Inl, of now st] st1 by simp
  next
    case (Inr m)
    show ?thesis
      using webhook_handler_accepted [OF assms(1) Inr, of now st] st1 calls [of m] by simp
  qed
  have two: "webhook_handler E now data st =
                (Inl (HTTPException 500 ''Error processing webhook: ''
                       (HTTPException 422 ''Error parsing message: '' e)), ?st1)"
    if "GROQ_CLIENT E audio = Inr tx" and "parse_message E data (JStr tx) = Inl e" for tx e
    using assms(1) rm that
    by (simp add: webhook_handler_def except_Exception_def)
  show ?thesis using one two by blast
qed

theorem voice_note_witness:
  "matches_criteria [(''event'', JStr ''onmessage''), (''isNewMsg'', JBool True), (''type'', JStr ''ptt''), (''body'', JStr ''T2dnUw=='')]
   \<and> webhook_handler example_env 0
       [(''event'', JStr ''onmessage''), (''isNewMsg'', JBool True), (''type'', JStr ''ptt''),
        (''body'', JStr ''T2dnUw=='')] initial_state =
       (Inl (HTTPException 500 ''Error processing webhook: ''
              (HTTPException 422 ''Error parsing message: '' (KeyError ''session''))),
        initial_state\<lparr>transcription_calls := [''OggS'']\<rparr>)"
proof -
  let ?d = "[(''event'', JStr ''onmessage''), (''isNewMsg'', JBool True), (''type'', JStr ''ptt''),
        (''body'', JStr ''T2dnUw=='')]"
  have a: "matches_criteria ?d"
    by (simp add: matches_criteria_def eq_str_def eq_True_def dict_get_def)
  have b: "dict_get ?d ''type'' = JStr ''ptt''" by (simp add: dict_get_def)
  have c: "dict_get_default ?d ''body'' (JStr '''') = JStr ''T2dnUw==''" by (simp add: dict_get_default_def)
  have d: "b64decode example_env ''T2dnUw=='' = Some ''OggS''" by (simp add: example_env_def)
  have e: "GROQ_CLIENT example_env ''OggS'' = Inr ''ola''" by (simp add: example_env_def)
  have f: "parse_message example_env ?d (JStr ''ola'') = Inl (KeyError ''session'')"
    by (simp add: parse_message_def and_then_def subscript_def)
  have g: "transcription_calls initial_state = []" by (simp add: initial_state_def)
  show ?thesis
    using a e f g voice_note_transcribed_before_validation [OF a b c d, of 0 initial_state]
    by simp
qed

section \<open>Accepted requests\<close>

lemma accepted_fromD:
  "accepted_from E s data \<Longrightarrow>
   matches_criteria data \<and> (\<exists>m. message_of E data = Inr m \<and> id' (sender m) = s \<and> body m = text_of E data)"
  by (auto simp: accepted_from_def text_of_def split: sum.splits)

lemma aggregate_existing:
  assumes "processing_tasks st (id' (sender m)) = Some h"
  shows "aggregate E now m st =
     ((''aggregating'', ''Message added to existing aggregation window''),
      st\<lparr>message_buffers :=
           (message_buffers st)(id' (sender m) \<mapsto> buffer_of st (id' (sender m)) @ [body m])\<rparr>)"
  using assms by (simp add: aggregate_def Let_def)

lemma aggregate_new:
  assumes "processing_tasks st (id' (sender m)) = None"
  shows "aggregate E now m st =
     ((''aggregating'', ''Message received and being aggregated''),
      st\<lparr>message_buffers :=
           (message_buffers st)(id' (sender m) \<mapsto> buffer_of st (id' (sender m)) @ [body m]),
         tasks := tasks st @
           [\<lparr>sender_id = id' (sender m), task_session = session m,
             is_user = isUser (sender m), is_group = isGroupMsg m,
             deadline = now + WAIT_TIME E, phase = Sleeping\<rparr>],
         processing_tasks := (processing_tasks st)(id' (sender m) \<mapsto> length (tasks st))\<rparr>)"
  using assms by (simp add: aggregate_def Let_def)

lemma handler_existing:
  assumes "accepted_from E s data" and "processing_tasks st s = Some h"
  shows "fst (webhook_handler E now data st) =
           Inr (''aggregating'', ''Message added to existing aggregation window'')"
    and "message_buffers (snd (webhook_handler E now data st)) =
           (message_buffers st)(s \<mapsto> buffer_of st s @ [text_of E data])"
    and "processing_tasks (snd (webhook_handler E now data st)) = processing_tasks st"
    and "tasks (snd (webhook_handler E now data st)) = tasks st"
    and "agent_calls (snd (webhook_handler E now data st)) = agent_calls st"
proof -
  from accepted_fromD [OF assms(1)] obtain m where
    mc: "matches_criteria data" and m: "message_of E data = Inr m"
    and s: "id' (sender m) = s" and b: "body m = text_of E data" by blast
  let ?st1 = "snd (read_message E data st)"
  have h: "processing_tasks ?st1 (id' (sender m)) = Some h"
    using assms(2) s by (simp add: read_message_frame)
  note wh = webhook_handler_accepted [OF mc m, of now st]
  note ag = aggregate_existing [OF h, of E now]
  show "fst (webhook_handler E now data st) =
           Inr (''aggregating'', ''Message added to existing aggregation window'')"
    using wh ag by simp
  show "message_buffers (snd (webhook_handler E now data st)) =
           (message_buffers st)(s \<mapsto> buffer_of st s @ [text_of E data])"
    using wh ag s b by (simp add: read_message_frame buffer_of_read_message)
  show "processing_tasks (snd (webhook_handler E now data st)) = processing_tasks st"
    using wh ag by (simp add: read_message_frame)
  show "tasks (snd (webhook_handler E now data st)) = tasks st"
    using wh ag by (simp add: read_message_frame)
  show "agent_calls (snd (webhook_handler E now data st)) = agent_calls st"
    using wh ag by (simp add: read_message_frame)
qed

lemma handler_new:
  assumes "accepted_from E s data" and "processing_tasks st s = None"
  shows "fst (webhook_handler E now data st) =
           Inr (''aggregating'', ''Message received and being aggregated'')"
    and "message_buffers (snd (webhook_handler E now data st)) =
           (message_buffers st)(s \<mapsto> buffer_of st s @ [text_of E data])"
    and "processing_tasks (snd (webhook_handler E now data st)) =
           (processing_tasks st)(s \<mapsto> length (tasks st))"
    and "\<exists>tk. tasks (snd (webhook_handler E now data st)) = tasks st @ [tk]
              \<and> sender_id tk = s \<and> deadline tk = now + WAIT_TIME E \<and> phase tk = Sleeping"
    and "agent_calls (snd (webhook_handler E now data st)) = agent_calls st"
proof -
  from accepted_fromD [OF assms(1)] obtain m where
    mc: "matches_criteria data" and m: "message_of E data = Inr m"
    and s: "id' (sender m) = s" and b: "body m = text_of E data" by blast
  let ?st1 = "snd (read_message E data st)"
  have h: "processing_tasks ?st1 (id' (sender m)) = None"
    using assms(2) s by (simp add: read_message_frame)
  note wh = webhook_handler_accepted [OF mc m, of now st]
  note ag = aggregate_new [OF h, of E now]
  show "fst (webhook_handler E now data st) =
           Inr (''aggregating'', ''Message received and being aggregated'')"
    using wh ag by simp
  show "message_buffers (snd (webhook_handler E now data st)) =
           (message_buffers st)(s \<mapsto> buffer_of st s @ [text_of E data])"
    using wh ag s b by (simp add: read_message_frame buffer_of_read_message)
  show "processing_tasks (snd (webhook_handler E now data st)) =
           (processing_tasks st)(s \<mapsto> length (tasks st))"
    using wh ag s by (simp add: read_message_frame)
  show "\<exists>tk. tasks (snd (webhook_handler E now data st)) = tasks st @ [tk]
              \<and> sender_id tk = s \<and> deadline tk = now + WAIT_TIME E \<and> phase tk = Sleeping"
    using wh ag s by (simp add: read_message_frame)
  show "agent_calls (snd (webhook_handler E now data st)) = agent_calls st"
    using wh ag by (simp add: read_message_frame)
qed

lemma buffer_of_upd: "message_buffers st' = (message_buffers st)(s \<mapsto> ms) \<Longrightarrow> buffer_of st' s = ms"
  by (simp add: buffer_of_def)

lemma buffer_of_upd_other:
  "message_buffers st' = (message_buffers st)(s \<mapsto> ms) \<Longrightarrow> k \<noteq> s \<Longrightarrow> buffer_of st' k = buffer_of st k"
  by (simp add: buffer_of_def)

lemma webhook_handler_response:
  "fst (webhook_handler E now data st) =
     (if matches_criteria data
      then (case message_of E data of
              Inl e \<Rightarrow> Inl (HTTPException 500 ''Error processing webhook: ''
                             (HTTPException 422 ''Error parsing message: '' e))
            | Inr m \<Rightarrow>
                Inr (''aggregating'',
                     if processing_tasks st (id' (sender m)) = None
                     then ''Message received and being aggregated''
                     else ''Message added to existing aggregation window''))
      else Inr (''received'', ''Message received but not processed (not matching criteria)''))"
proof (cases "matches_criteria data")
  case False
  then show ?thesis by (simp add: webhook_handler_skipped)
next
  case True
  show ?thesis
  proof (cases "message_of E data")
    case (Inl e)
    show ?thesis using True Inl webhook_handler_rejected [OF True Inl, of now st] by simp
  next
    case (Inr m)
    have "fst (aggregate E now m (snd (read_message E data st))) =
            (''aggregating'',
             if processing_tasks st (id' (sender m)) = None
             then ''Message received and being aggregated''
             else ''Message added to existing aggregation window'')"
      by (simp add: aggregate_def Let_def read_message_frame)
    then show ?thesis using True Inr webhook_handler_accepted [OF True Inr, of now st] by simp
  qed
qed

text \<open>
  A message accepted while its sender has an entry in \<open>processing_tasks\<close> is appended
  to the sender's buffer; the list of tasks and \<open>processing_tasks\<close> stay as they are.
\<close>

lemma arrival_in_open_window_only_appends:
  assumes "accepted_from E s data" and "processing_tasks st s = Some h"
  shows "fst (webhook_handler E now data st) =
           Inr (''aggregating'', ''Message added to existing aggregation window'')
         \<and> buffer_of (snd (webhook_handler E now data st)) s = buffer_of st s @ [text_of E data]
         \<and> tasks (snd (webhook_handler E now data st)) = tasks st
         \<and> processing_tasks (snd (webhook_handler E now data st)) = processing_tasks st"
  using handler_existing [OF assms, of now] by (simp add: buffer_of_upd)

section \<open>The steps of a task\<close>

lemma set_phase_fields [simp]:
  "message_buffers (set_phase t p st) = message_buffers st"
  "processing_tasks (set_phase t p st) = processing_tasks st"
  "agent_calls (set_phase t p st) = agent_calls st"
  "tmp_files (set_phase t p st) = tmp_files st"
  "transcription_calls (set_phase t p st) = transcription_calls st"
  "length (tasks (set_phase t p st)) = length (tasks st)"
  by (simp_all add: set_phase_def)

lemma set_phase_task:
  "t < length (tasks st) \<Longrightarrow> tasks (set_phase t p st) ! t = (tasks st ! t)\<lparr>phase := p\<rparr>"
  "u \<noteq> t \<Longrightarrow> tasks (set_phase t p st) ! u = tasks st ! u"
  by (simp_all add: set_phase_def)

lemma buffer_of_set_phase [simp]: "buffer_of (set_phase t p st) k = buffer_of st k"
  by (simp add: buffer_of_def)

lemma clear_sender_fields [simp]:
  "message_buffers (clear_sender s st) = (message_buffers st)(s \<mapsto> [])"
  "processing_tasks (clear_sender s st) = (processing_tasks st)(s := None)"
  "agent_calls (clear_sender s st) = agent_calls st"
  "tasks (clear_sender s st) = tasks st"
  by (simp_all add: clear_sender_def)

lemma buffer_of_clear_sender [simp]:
  "buffer_of (clear_sender s st) k = (if k = s then [] else buffer_of st k)"
  by (simp add: buffer_of_def)

lemma touch_buffer_fields [simp]:
  "processing_tasks (touch_buffer s st) = processing_tasks st"
  "agent_calls (touch_buffer s st) = agent_calls st"
  "tasks (touch_buffer s st) = tasks st"
  by (simp_all add: touch_buffer_def split: option.splits)

lemma buffer_of_touch_buffer [simp]: "buffer_of (touch_buffer s st) k = buffer_of st k"
  by (simp add: buffer_of_def touch_buffer_def split: option.splits)

lemma buffer_of_other_updates [simp]:
  "buffer_of (agent_calls_update f st) k = buffer_of st k"
  "buffer_of (tasks_update g st) k = buffer_of st k"
  "buffer_of (processing_tasks_update h st) k = buffer_of st k"
  "buffer_of (transcription_calls_update i st) k = buffer_of st k"
  by (simp_all add: buffer_of_def)

lemma wake_empty:
  assumes "t < length (tasks st)" and "phase (tasks st ! t) = Sleeping"
      and "buffer_of st (sender_id (tasks st ! t)) = []"
  shows "process_aggregated_messages_wake t st =
           set_phase t (Finished ReturnedNone) (touch_buffer (sender_id (tasks st ! t)) st)"
  using assms by (simp add: process_aggregated_messages_wake_def Let_def)

lemma wake_nonempty:
  assumes "t < length (tasks st)" and "phase (tasks st ! t) = Sleeping"
      and "sender_id (tasks st ! t) = s" and "buffer_of st s \<noteq> []"
  shows "process_aggregated_messages_wake t st =
           set_phase t (AwaitingAgent (phone_number s) (join (buffer_of st s)))
             ((clear_sender s (touch_buffer s st))
                \<lparr>agent_calls := agent_calls st @ [(phone_number s, join (buffer_of st s))]\<rparr>)"
  using assms by (simp add: process_aggregated_messages_wake_def Let_def)

lemma wake_nonempty_facts:
  assumes "t < length (tasks st)" and "phase (tasks st ! t) = Sleeping"
      and "sender_id (tasks st ! t) = s" and "buffer_of st s \<noteq> []"
  shows "buffer_of (process_aggregated_messages_wake t st) s = []"
    and "processing_tasks (process_aggregated_messages_wake t st) = (processing_tasks st)(s := None)"
    and "agent_calls (process_aggregated_messages_wake t st) =
           agent_calls st @ [(phone_number s, join (buffer_of st s))]"
    and "phase (tasks (process_aggregated_messages_wake t st) ! t) =
           AwaitingAgent (phone_number s) (join (buffer_of st s))"
    and "sender_id (tasks (process_aggregated_messages_wake t st) ! t) = s"
    and "length (tasks (process_aggregated_messages_wake t st)) = length (tasks st)"
  using assms
  by (simp_all add: wake_nonempty [OF assms] set_phase_task)

lemma wake_empty_facts:
  assumes "t < length (tasks st)" and "phase (tasks st ! t) = Sleeping"
      and "sender_id (tasks st ! t) = s" and "buffer_of st s = []"
  shows "buffer_of (process_aggregated_messages_wake t st) k = buffer_of st k"
    and "processing_tasks (process_aggregated_messages_wake t st) = processing_tasks st"
    and "agent_calls (process_aggregated_messages_wake t st) = agent_calls st"
    and "phase (tasks (process_aggregated_messages_wake t st) ! t) = Finished ReturnedNone"
  using assms wake_empty [of t st]
  by (simp_all add: set_phase_task)

lemma resume_error:
  assumes "t < length (tasks st)" and "phase (tasks st ! t) = AwaitingAgent ph cm"
  shows "process_aggregated_messages_resume t (Inl e) st =
           set_phase t (Finished (Raised e)) (clear_sender (sender_id (tasks st ! t)) st)"
  using assms by (simp add: process_aggregated_messages_resume_def Let_def)

lemma resume_error_facts:
  assumes "t < length (tasks st)" and "phase (tasks st ! t) = AwaitingAgent ph cm"
      and "sender_id (tasks st ! t) = s"
  shows "buffer_of (process_aggregated_messages_resume t (Inl e) st) s = []"
    and "processing_tasks (process_aggregated_messages_resume t (Inl e) st) = (processing_tasks st)(s := None)"
    and "agent_calls (process_aggregated_messages_resume t (Inl e) st) = agent_calls st"
    and "phase (tasks (process_aggregated_messages_resume t (Inl e) st) ! t) = Finished (Raised e)"
    and "length (tasks (process_aggregated_messages_resume t (Inl e) st)) = length (tasks st)"
  using assms resume_error [OF assms(1,2), of e]
  by (simp_all add: set_phase_task)

section \<open>Reachable states\<close>

lemma windows_have_messages_aggregate:
  "windows_have_messages st \<Longrightarrow> windows_have_messages (snd (aggregate E now m st))"
  by (auto simp: windows_have_messages_def aggregate_def Let_def buffer_of_def split: if_splits)

lemma windows_have_messages_read_message:
  "windows_have_messages st \<Longrightarrow> windows_have_messages (snd (read_message E data st))"
  by (simp add: windows_have_messages_def read_message_frame buffer_of_read_message)

lemma windows_have_messages_request:
  assumes "windows_have_messages st"
  shows "windows_have_messages (snd (webhook_handler E now data st))"
proof (cases "matches_criteria data")
  case False
  then show ?thesis using assms by (simp add: webhook_handler_skipped)
next
  case True
  show ?thesis
  proof (cases "message_of E data")
    case (Inl e)
    show ?thesis
      using webhook_handler_rejected [OF True Inl, of now st]
        windows_have_messages_read_message [OF assms, of E data] by simp
  next
    case (Inr m)
    show ?thesis
      using webhook_handler_accepted [OF True Inr, of now st]
        windows_have_messages_aggregate
          [OF windows_have_messages_read_message [OF assms, of E data], of E now m]
      by simp
  qed
qed

lemma windows_have_messages_wake:
  assumes "windows_have_messages st"
  shows "windows_have_messages (process_aggregated_messages_wake t st)"
  using assms
  by (auto simp: windows_have_messages_def process_aggregated_messages_wake_def Let_def
      split: if_splits)

lemma windows_have_messages_resume:
  assumes "windows_have_messages st"
  shows "windows_have_messages (process_aggregated_messages_resume t r st)"
  using assms
  by (auto simp: windows_have_messages_def process_aggregated_messages_resume_def Let_def
      split: if_splits phase.splits sum.splits)

lemma reachable_windows_have_messages: "reachable E st \<Longrightarrow> windows_have_messages st"
proof (induction rule: reachable.induct)
  case start
  show ?case by (simp add: windows_have_messages_def initial_state_def buffer_of_def)
next
  case (request st now data)
  then show ?case by (simp add: windows_have_messages_request)
next
  case (wake st t)
  then show ?case by (simp add: windows_have_messages_wake)
next
  case (resume st t r)
  then show ?case by (simp add: windows_have_messages_resume)
qed

section \<open>Windows\<close>

text \<open>
  Claim C10. When a sleeping task wakes on a non-empty buffer, the buffer is cleared and
  the sender's entry of \<open>processing_tasks\<close> removed in the same step that hands the joined
  text to the agent: while the task awaits the agent the sender has an empty buffer and
  no entry. A message accepted in that state starts a new window at once (a new sleeping
  task, recorded in \<open>processing_tasks\<close>, the buffer holding just that message) while the
  first task is still awaiting the agent.
\<close>

theorem message_during_agent_call_opens_new_window:
  assumes "t < length (tasks st)" and "phase (tasks st ! t) = Sleeping"
      and "sender_id (tasks st ! t) = s" and "buffer_of st s \<noteq> []"
      and "accepted_from E s data"
  shows "buffer_of (process_aggregated_messages_wake t st) s = []
         \<and> processing_tasks (process_aggregated_messages_wake t st) s = None
         \<and> phase (tasks (process_aggregated_messages_wake t st) ! t) =
             AwaitingAgent (phone_number s) (join (buffer_of st s))
         \<and> agent_calls (process_aggregated_messages_wake t st) =
             agent_calls st @ [(phone_number s, join (buffer_of st s))]
         \<and> fst (webhook_handler E now data (process_aggregated_messages_wake t st)) =
             Inr (''aggregating'', ''Message received and being aggregated'')
         \<and> buffer_of (snd (webhook_handler E now data (process_aggregated_messages_wake t st))) s =
             [text_of E data]
         \<and> processing_tasks (snd (webhook_handler E now data (process_aggregated_messages_wake t st))) s =
             Some (length (tasks st))
         \<and> (\<exists>tk. tasks (snd (webhook_handler E now data (process_aggregated_messages_wake t st))) =
                   tasks (process_aggregated_messages_wake t st) @ [tk]
                 \<and> sender_id tk = s \<and> phase tk = Sleeping \<and> deadline tk = now + WAIT_TIME E)
         \<and> phase (tasks (snd (webhook_handler E now data (process_aggregated_messages_wake t st))) ! t) =
             AwaitingAgent (phone_number s) (join (buffer_of st s))"
proof -
  let ?st1 = "process_aggregated_messages_wake t st"
  let ?st2 = "snd (webhook_handler E now data ?st1)"
  note w = wake_nonempty_facts [OF assms(1-4)]
  have idle: "processing_tasks ?st1 s = None" using w(2) by simp
  note n = handler_new [OF assms(5) idle, of now]
  have b2: "buffer_of ?st2 s = [text_of E data]"
    using buffer_of_upd [OF n(2)] w(1) by simp
  have h2: "processing_tasks ?st2 s = Some (length (tasks st))"
    using n(3) w(6) by simp
  from n(4) obtain tk where tk: "tasks ?st2 = tasks ?st1 @ [tk]" "sender_id tk = s"
    "deadline tk = now + WAIT_TIME E" "phase tk = Sleeping" by blast
  have "tasks ?st2 ! t = tasks ?st1 ! t"
    using tk(1) assms(1) w(6) by (simp add: nth_append)
  then have old: "phase (tasks ?st2 ! t) = AwaitingAgent (phone_number s) (join (buffer_of st s))"
    using w(4) by simp
  show ?thesis using w(1,3,4) idle n(1) b2 h2 tk old by blast
qed

text \<open>
  Claim C4. When the agent call of a task raises, the sender's buffer is emptied and the
  sender's entry of \<open>processing_tasks\<close> removed, whatever the exception; the exception
  ends the task and stays there. The response to the next request, whatever its payload,
  is the same for every exception the agent may have raised, and the sender's next
  accepted message is answered
  \<^verbatim>\<open>"aggregating"\<close> and starts a new window whose buffer holds only that message.
\<close>

theorem failed_dispatch_resets_sender:
  assumes "t < length (tasks st)" and "phase (tasks st ! t) = AwaitingAgent ph cm"
      and "sender_id (tasks st ! t) = s" and "accepted_from E s data"
  shows "buffer_of (process_aggregated_messages_resume t (Inl e) st) s = []
         \<and> processing_tasks (process_aggregated_messages_resume t (Inl e) st) s = None
         \<and> phase (tasks (process_aggregated_messages_resume t (Inl e) st) ! t) = Finished (Raised e)
         \<and> fst (webhook_handler E now' data' (process_aggregated_messages_resume t (Inl e) st)) =
             fst (webhook_handler E now' data' (process_aggregated_messages_resume t (Inl e') st))
         \<and> fst (webhook_handler E now data (process_aggregated_messages_resume t (Inl e) st)) =
             Inr (''aggregating'', ''Message received and being aggregated'')
         \<and> buffer_of (snd (webhook_handler E now data (process_aggregated_messages_resume t (Inl e) st))) s =
             [text_of E data]
         \<and> processing_tasks (snd (webhook_handler E now data (process_aggregated_messages_resume t (Inl e) st))) s =
             Some (length (tasks st))
         \<and> (\<exists>tk. tasks (snd (webhook_handler E now data (process_aggregated_messages_resume t (Inl e) st))) =
                   tasks (process_aggregated_messages_resume t (Inl e) st) @ [tk]
                 \<and> sender_id tk = s \<and> phase tk = Sleeping \<and> deadline tk = now + WAIT_TIME E)"
proof -
  let ?st1 = "process_aggregated_messages_resume t (Inl e) st"
  let ?st2 = "snd (webhook_handler E now data ?st1)"
  note f = resume_error_facts [OF assms(1-3), of e]
  have idle: "processing_tasks ?st1 s = None" using f(2) by simp
  note n = handler_new [OF assms(4) idle, of now]
  have b2: "buffer_of ?st2 s = [text_of E data]"
    using buffer_of_upd [OF n(2)] f(1) by simp
  have h2: "processing_tasks ?st2 s = Some (length (tasks st))"
    using n(3) f(5) by simp
  have "processing_tasks ?st1 =
          processing_tasks (process_aggregated_messages_resume t (Inl e') st)"
    using f(2) resume_error_facts(2) [OF assms(1-3), of e'] by simp
  then have same: "fst (webhook_handler E now' data' ?st1) =
      fst (webhook_handler E now' data' (process_aggregated_messages_resume t (Inl e') st))"
    unfolding webhook_handler_response by (simp split: sum.splits)
  show ?thesis using f(1,4) idle n(1,4) b2 h2 same by blast
qed

section \<open>The end of a window\<close>

text \<open>
  Claim C3, as amended. In every reachable state, when a sleeping task of sender \<open>s\<close>
  wakes: with a non-empty buffer, one uninterrupted step joins and clears the buffer,
  removes the sender's entry of \<open>processing_tasks\<close> and hands the joined text to the
  agent, so the entry is removed before the dispatch begins, not when it completes;
  with an empty buffer the task returns without a dispatch and without touching
  \<open>processing_tasks\<close>, in which the sender has no entry at that moment.
\<close>

theorem window_closes_before_dispatch:
  assumes "reachable E st" and "t < length (tasks st)" and "phase (tasks st ! t) = Sleeping"
      and "sender_id (tasks st ! t) = s"
  shows "if buffer_of st s = []
         then agent_calls (process_aggregated_messages_wake t st) = agent_calls st
              \<and> phase (tasks (process_aggregated_messages_wake t st) ! t) = Finished ReturnedNone
              \<and> processing_tasks (process_aggregated_messages_wake t st) = processing_tasks st
              \<and> processing_tasks st s = None
              \<and> buffer_of (process_aggregated_messages_wake t st) s = []
         else agent_calls (process_aggregated_messages_wake t st) =
                agent_calls st @ [(phone_number s, join (buffer_of st s))]
              \<and> phase (tasks (process_aggregated_messages_wake t st) ! t) =
                  AwaitingAgent (phone_number s) (join (buffer_of st s))
              \<and> processing_tasks (process_aggregated_messages_wake t st) s = None
              \<and> buffer_of (process_aggregated_messages_wake t st) s = []"
proof (cases "buffer_of st s = []")
  case True
  have "(processing_tasks st s \<noteq> None) = (buffer_of st s \<noteq> [])"
    using reachable_windows_have_messages [OF assms(1)]
    unfolding windows_have_messages_def by blast
  then have none: "processing_tasks st s = None" using True by simp
  note e = wake_empty_facts [OF assms(2-4) True]
  show ?thesis using True e(1) [of s] e(2-4) none by simp
next
  case False
  note w = wake_nonempty_facts [OF assms(2-4) False]
  show ?thesis using False w(1-4) by simp
qed

section \<open>Examples\<close>

lemma message_of_payload:
  "ty \<noteq> ''ptt'' \<Longrightarrow>
   message_of E (payload ty sid tx) =
     Inr \<lparr>event = ''onmessage'', session = ''s1'', body = tx, type' = ty, isNewMsg = True,
          sender = \<lparr>id' = sid, isUser = True\<rparr>, isGroupMsg = False\<rparr>"
  by (simp add: message_of_def read_message_def payload_def dict_get_def dict_get_default_def
      eq_str_def parse_message_def and_then_def subscript_def validate_str_def validate_bool_def)

lemma accepted_chat_payload: "accepted_from E sid (payload ''chat'' sid tx)"
  by (simp add: accepted_from_def message_of_payload)
     (simp add: matches_criteria_def payload_def dict_get_def eq_str_def eq_True_def)

lemma text_of_chat_payload: "text_of E (payload ''chat'' sid tx) = tx"
  by (simp add: text_of_def message_of_payload)

lemma initial_state_fields:
  "processing_tasks initial_state s = None" "buffer_of initial_state s = []"
  "tasks initial_state = []" "agent_calls initial_state = []"
  by (simp_all add: initial_state_def buffer_of_def)

lemma phone_number_example: "phone_number ''5511999@c.us'' = ''5511999''"
  by (simp add: phone_number_def)

lemma one_message_state:
  "tasks (snd (webhook_handler example_env 0 (payload ''chat'' ''5511999@c.us'' ''Oi'') initial_state)) =
     [\<lparr>sender_id = ''5511999@c.us'', task_session = ''s1'', is_user = True, is_group = False,
       deadline = 1, phase = Sleeping\<rparr>]"
  "processing_tasks (snd (webhook_handler example_env 0 (payload ''chat'' ''5511999@c.us'' ''Oi'')
      initial_state)) ''5511999@c.us'' = Some 0"
  "buffer_of (snd (webhook_handler example_env 0 (payload ''chat'' ''5511999@c.us'' ''Oi'')
      initial_state)) ''5511999@c.us'' = [''Oi'']"
  "agent_calls (snd (webhook_handler example_env 0 (payload ''chat'' ''5511999@c.us'' ''Oi'')
      initial_state)) = []"
proof -
  let ?s = "''5511999@c.us''"
  let ?m = "\<lparr>event = ''onmessage'', session = ''s1'', body = ''Oi'', type' = ''chat'', isNewMsg = True,
          sender = \<lparr>id' = ?s, isUser = True\<rparr>, isGroupMsg = False\<rparr>"
  have mc: "matches_criteria (payload ''chat'' ?s ''Oi'')"
    using accepted_chat_payload [of example_env ?s "''Oi''"] by (simp add: accepted_from_def)
  have m: "message_of example_env (payload ''chat'' ?s ''Oi'') = Inr ?m"
    by (simp add: message_of_payload)
  have rm: "snd (read_message example_env (payload ''chat'' ?s ''Oi'') initial_state) = initial_state"
    by (simp add: read_message_def payload_def dict_get_def dict_get_default_def eq_str_def)
  have ag: "aggregate example_env 0 ?m initial_state =
     ((''aggregating'', ''Message received and being aggregated''),
      initial_state\<lparr>message_buffers := (message_buffers initial_state)(?s \<mapsto> [''Oi'']),
         tasks := [\<lparr>sender_id = ?s, task_session = ''s1'', is_user = True, is_group = False,
                    deadline = 1, phase = Sleeping\<rparr>],
         processing_tasks := (processing_tasks initial_state)(?s \<mapsto> 0)\<rparr>)"
    using aggregate_new [of initial_state ?m example_env 0]
    by (simp add: initial_state_fields example_env_def)
  note wh = webhook_handler_accepted [OF mc m, of 0 initial_state]
  show "tasks (snd (webhook_handler example_env 0 (payload ''chat'' ?s ''Oi'') initial_state)) =
     [\<lparr>sender_id = ?s, task_session = ''s1'', is_user = True, is_group = False,
       deadline = 1, phase = Sleeping\<rparr>]"
    using wh rm ag by simp
  show "processing_tasks (snd (webhook_handler example_env 0 (payload ''chat'' ?s ''Oi'')
      initial_state)) ?s = Some 0"
    using wh rm ag by simp
  show "buffer_of (snd (webhook_handler example_env 0 (payload ''chat'' ?s ''Oi'')
      initial_state)) ?s = [''Oi'']"
    using wh rm ag by (simp add: buffer_of_def)
  show "agent_calls (snd (webhook_handler example_env 0 (payload ''chat'' ?s ''Oi'')
      initial_state)) = []"
    using wh rm ag by (simp add: initial_state_fields)
qed

text \<open>
  Claim C3 as stated fails: after one message and the end of its window, the task is
  still awaiting the agent (its dispatch has not completed) and the sender's entry of
  \<open>processing_tasks\<close> is already gone.
\<close>

theorem handle_removed_before_dispatch_completes:
  "processing_tasks
     (snd (webhook_handler example_env 0 (payload ''chat'' ''5511999@c.us'' ''Oi'') initial_state))
     ''5511999@c.us'' = Some 0
   \<and> phase (tasks (process_aggregated_messages_wake 0
        (snd (webhook_handler example_env 0 (payload ''chat'' ''5511999@c.us'' ''Oi'') initial_state)))
        ! 0) = AwaitingAgent ''5511999'' ''Oi''
   \<and> processing_tasks (process_aggregated_messages_wake 0
        (snd (webhook_handler example_env 0 (payload ''chat'' ''5511999@c.us'' ''Oi'') initial_state)))
        ''5511999@c.us'' = None"
proof -
  let ?s = "''5511999@c.us''"
  let ?st1 = "snd (webhook_handler example_env 0 (payload ''chat'' ?s ''Oi'') initial_state)"
  have a: "0 < length (tasks ?st1)" by (simp add: one_message_state)
  have b: "phase (tasks ?st1 ! 0) = Sleeping" by (simp add: one_message_state)
  have c: "sender_id (tasks ?st1 ! 0) = ?s" by (simp add: one_message_state)
  have d: "buffer_of ?st1 ?s \<noteq> []" by (simp add: one_message_state)
  note w = wake_nonempty_facts [OF a b c d]
  show ?thesis using w(2,4) by (simp add: one_message_state phone_number_example)
qed

theorem window_closes_witness:
  "agent_calls (process_aggregated_messages_wake 0
        (snd (webhook_handler example_env 0 (payload ''chat'' ''5511999@c.us'' ''Oi'') initial_state))) =
     [(''5511999'', ''Oi'')]
   \<and> processing_tasks (process_aggregated_messages_wake 0
        (snd (webhook_handler example_env 0 (payload ''chat'' ''5511999@c.us'' ''Oi'') initial_state)))
        ''5511999@c.us'' = None
   \<and> buffer_of (process_aggregated_messages_wake 0
        (snd (webhook_handler example_env 0 (payload ''chat'' ''5511999@c.us'' ''Oi'') initial_state)))
        ''5511999@c.us'' = []"
proof -
  let ?s = "''5511999@c.us''"
  let ?st1 = "snd (webhook_handler example_env 0 (payload ''chat'' ?s ''Oi'') initial_state)"
  have r: "reachable example_env ?st1" by (intro reachable.request reachable.start)
  have a: "0 < length (tasks ?st1)" by (simp add: one_message_state)
  have b: "phase (tasks ?st1 ! 0) = Sleeping" by (simp add: one_message_state)
  have c: "sender_id (tasks ?st1 ! 0) = ?s" by (simp add: one_message_state)
  show ?thesis
    using window_closes_before_dispatch [OF r a b c]
    by (simp add: one_message_state phone_number_example)
qed

theorem agent_call_witness:
  "phase (tasks (snd (webhook_handler example_env 5 (payload ''chat'' ''5511999@c.us'' ''e ai?'')
       (process_aggregated_messages_wake 0
          (snd (webhook_handler example_env 0 (payload ''chat'' ''5511999@c.us'' ''Oi'')
             initial_state))))) ! 0) = AwaitingAgent ''5511999'' ''Oi''
   \<and> buffer_of (snd (webhook_handler example_env 5 (payload ''chat'' ''5511999@c.us'' ''e ai?'')
       (process_aggregated_messages_wake 0
          (snd (webhook_handler example_env 0 (payload ''chat'' ''5511999@c.us'' ''Oi'')
             initial_state))))) ''5511999@c.us'' = [''e ai?'']
   \<and> processing_tasks (snd (webhook_handler example_env 5 (payload ''chat'' ''5511999@c.us'' ''e ai?'')
       (process_aggregated_messages_wake 0
          (snd (webhook_handler example_env 0 (payload ''chat'' ''5511999@c.us'' ''Oi'')
             initial_state))))) ''5511999@c.us'' = Some 1"
proof -
  let ?s = "''5511999@c.us''"
  let ?st1 = "snd (webhook_handler example_env 0 (payload ''chat'' ?s ''Oi'') initial_state)"
  have a: "0 < length (tasks ?st1)" by (simp add: one_message_state)
  have b: "phase (tasks ?st1 ! 0) = Sleeping" by (simp add: one_message_state)
  have c: "sender_id (tasks ?st1 ! 0) = ?s" by (simp add: one_message_state)
  have d: "buffer_of ?st1 ?s \<noteq> []" by (simp add: one_message_state)
  have e: "accepted_from example_env ?s (payload ''chat'' ?s ''e ai?'')"
    by (rule accepted_chat_payload)
  show ?thesis
    using message_during_agent_call_opens_new_window [OF a b c d e, where now = 5]
    by (simp add: one_message_state phone_number_example text_of_chat_payload)
qed

theorem failed_dispatch_witness:
  "phase (tasks (process_aggregated_messages_resume 0 (Inl (CollaboratorError ''agent down''))
       (process_aggregated_messages_wake 0
          (snd (webhook_handler example_env 0 (payload ''chat'' ''5511999@c.us'' ''Oi'')
             initial_state)))) ! 0) = Finished (Raised (CollaboratorError ''agent down''))
   \<and> fst (webhook_handler example_env 9 (payload ''chat'' ''5511999@c.us'' ''alo'')
       (process_aggregated_messages_resume 0 (Inl (CollaboratorError ''agent down''))
         (process_aggregated_messages_wake 0
            (snd (webhook_handler example_env 0 (payload ''chat'' ''5511999@c.us'' ''Oi'')
               initial_state))))) =
       Inr (''aggregating'', ''Message received and being aggregated'')
   \<and> buffer_of (snd (webhook_handler example_env 9 (payload ''chat'' ''5511999@c.us'' ''alo'')
       (process_aggregated_messages_resume 0 (Inl (CollaboratorError ''agent down''))
         (process_aggregated_messages_wake 0
            (snd (webhook_handler example_env 0 (payload ''chat'' ''5511999@c.us'' ''Oi'')
               initial_state)))))) ''5511999@c.us'' = [''alo'']"
proof -
  let ?s = "''5511999@c.us''"
  let ?st1 = "snd (webhook_handler example_env 0 (payload ''chat'' ?s ''Oi'') initial_state)"
  let ?st2 = "process_aggregated_messages_wake 0 ?st1"
  have a: "0 < length (tasks ?st1)" by (simp add: one_message_state)
  have b: "phase (tasks ?st1 ! 0) = Sleeping" by (simp add: one_message_state)
  have c: "sender_id (tasks ?st1 ! 0) = ?s" by (simp add: one_message_state)
  have d: "buffer_of ?st1 ?s \<noteq> []" by (simp add: one_message_state)
  note w = wake_nonempty_facts [OF a b c d]
  have a2: "0 < length (tasks ?st2)" using w(6) a by simp
  have e: "accepted_from example_env ?s (payload ''chat'' ?s ''alo'')"
    by (rule accepted_chat_payload)
  show ?thesis
    using failed_dispatch_resets_sender [OF a2 w(4) w(5) e, where now = 9]
    by (simp add: text_of_chat_payload)
qed

section \<open>A dispatch that fails during the next window\<close>

text \<open>
  Claim C2 asks for at most one open window (processing task) per sender at any instant,
  a message that arrives during a window never starting another. The code breaks this
  after a failed dispatch. In the run above the window opened by \<^verbatim>\<open>m2\<close> has its entry in
  \<open>processing_tasks\<close>; the exception of the first dispatch makes lines 118 to 120 delete
  that entry, which belongs to the newer task; \<^verbatim>\<open>m3\<close>, arriving at 18 while that task
  sleeps until 22, is answered as the first message of a window and a second task is
  created: two sleeping tasks of one sender, with deadlines 22 and 28.
\<close>

theorem failed_dispatch_deletes_next_window_entry:
  "processing_tasks (run race_env (take 3 race_trace) initial_state) ''5511999@c.us'' = Some 1
   \<and> processing_tasks (run race_env (take 4 race_trace) initial_state) ''5511999@c.us'' = None
   \<and> fst (webhook_handler race_env 18 (payload ''chat'' ''5511999@c.us'' ''m3'')
            (run race_env (take 4 race_trace) initial_state)) =
       Inr (''aggregating'', ''Message received and being aggregated'')
   \<and> map (\<lambda>tk. (sender_id tk, deadline tk, phase tk))
         (tasks (run race_env (take 5 race_trace) initial_state)) =
       [(''5511999@c.us'', 10, Finished (Raised (CollaboratorError ''agent down''))),
        (''5511999@c.us'', 22, Sleeping),
        (''5511999@c.us'', 28, Sleeping)]"
  by (simp add: webhook_handler_def except_Exception_def matches_criteria_def read_message_def
      parse_message_def and_then_def subscript_def validate_str_def validate_bool_def
      aggregate_def buffer_of_def dict_get_def dict_get_default_def eq_str_def eq_True_def
      payload_def race_env_def example_env_def initial_state_def
      process_aggregated_messages_wake_def touch_buffer_def clear_sender_def set_phase_def
      process_aggregated_messages_resume_def phone_number_def Let_def race_trace_def)

text \<open>
  Claim C1 asks for one dispatch per burst, with all its texts. The same run breaks it:
  \<^verbatim>\<open>m2\<close> (at 12) and \<^verbatim>\<open>m3\<close> (at 18) arrive within the window that ends at 22, and
  \<^verbatim>\<open>m3\<close> and \<^verbatim>\<open>m4\<close> (at 25) within the window that ends at 28; \<^verbatim>\<open>m2\<close> is wiped from
  the buffer by line 118 and never reaches the agent, and \<^verbatim>\<open>m3\<close> and \<^verbatim>\<open>m4\<close> are
  dispatched one by one.
\<close>

theorem burst_after_failed_dispatch_is_split_and_loses_a_message:
  "buffer_of (run race_env (take 3 race_trace) initial_state) ''5511999@c.us'' = [''m2'']
   \<and> deadline (tasks (run race_env (take 5 race_trace) initial_state) ! 1) = 22
   \<and> deadline (tasks (run race_env (take 5 race_trace) initial_state) ! 2) = 28
   \<and> agent_calls (run race_env race_trace initial_state) =
       [(''5511999'', ''m1''), (''5511999'', ''m3''), (''5511999'', ''m4'')]"
  by (simp add: webhook_handler_def except_Exception_def matches_criteria_def read_message_def
      parse_message_def and_then_def subscript_def validate_str_def validate_bool_def
      aggregate_def buffer_of_def dict_get_def dict_get_default_def eq_str_def eq_True_def
      payload_def race_env_def example_env_def initial_state_def
      process_aggregated_messages_wake_def touch_buffer_def clear_sender_def set_phase_def
      process_aggregated_messages_resume_def phone_number_def Let_def race_trace_def)

section \<open>Voice replies\<close>




end
